theory Spec2Isabelle
  imports Main "HOL-Library.Word"
begin

section \<open>Errors\<close>

text \<open>
  Go errors are values of an open interface. The model keeps the sentinel errors the
  hub names, a plain error (any other value of the interface) and an error that has a
  \<open>Temporary() bool\<close> method, as \<open>net.DNSError\<close> has; its flag is what the method
  returns.
\<close>

datatype error =
    ErrorMissingDeviceNameContext
  | ErrorDeviceNotFound
  | ErrorCapacityExceeded
  | ErrorDuplicateID
  | ErrorNoSuchTransactionKey
  | PlainError string
  | TemporaryError string bool

section \<open>Package xhttp: the retry transactor\<close>

text \<open>
  A transactor has the signature of \<open>http.Client.Do\<close>. Calling it has effects (the
  network), so the model threads a world \<open>'w\<close> through every call; the pair returned is
  Go's \<open>(response, err)\<close>, either of which may be nil.
\<close>

type_synonym ('q, 'p, 'w) transactor = "'q \<Rightarrow> 'w \<Rightarrow> ('p option \<times> error option) \<times> 'w"

text \<open>
  \<open>DefaultShouldRetry\<close>: the type assertion \<open>err.(temporaryError)\<close> succeeds exactly on
  an error with a \<open>Temporary\<close> method.
\<close>

fun DefaultShouldRetry :: "error \<Rightarrow> bool" where
  "DefaultShouldRetry (TemporaryError msg temp) = temp"
| "DefaultShouldRetry err = False"

text \<open>
  \<open>RetryOptions\<close>. \<open>Retries\<close> is a Go \<open>int\<close>, 64 bits wide on the 64-bit targets the
  server is built for: a \<open>64 word\<close> read with \<open>sint\<close>. \<open>ShouldRetry\<close> may be nil.
  \<open>Counter\<close> may be nil as well; the model keeps whether one is set and counts what is
  added to it. The logger only writes log lines and is left out.
\<close>

record RetryOptions =
  Retries :: "64 word"
  ShouldRetry :: "(error \<Rightarrow> bool) option"
  Counter :: bool

text \<open>
  The variables of one call of the decorated function: \<open>response\<close>, \<open>err\<close>, the world,
  and what was added to the counter. \<open>attempted\<close> is a ghost field: the outcome of each
  call of \<open>next\<close>, in order, so that the number of attempts can be stated.
\<close>

record ('p, 'w) retry_vars =
  rv_response :: "'p option"
  rv_err :: "error option"
  rv_world :: 'w
  rv_counter :: nat
  attempted :: "('p option \<times> error option) list"

text \<open>
  The loop \<open>for i := 0; i < attempts; i++\<close>. Inside the loop \<open>i < attempts\<close> holds, so
  \<open>i++\<close> never wraps and \<open>i\<close> and \<open>attempts\<close> are read as integers.
\<close>

function retry_loop ::
  "(error \<Rightarrow> bool) \<Rightarrow> bool \<Rightarrow> ('q, 'p, 'w) transactor \<Rightarrow> 'q \<Rightarrow> int \<Rightarrow> int \<Rightarrow>
   ('p, 'w) retry_vars \<Rightarrow> ('p, 'w) retry_vars" where
  "retry_loop shouldRetry counter next request attempts i v =
     (if i < attempts then
        (case next request (rv_world v) of
           ((response, err), w) \<Rightarrow>
             (let v1 = v\<lparr>rv_response := response, rv_err := err, rv_world := w,
                         attempted := attempted v @ [(response, err)]\<rparr>
              in case err of
                   None \<Rightarrow> v1
                 | Some e \<Rightarrow>
                     if shouldRetry e then
                       retry_loop shouldRetry counter next request attempts (i + 1)
                         (if counter then v1\<lparr>rv_counter := rv_counter v1 + 1\<rparr> else v1)
                     else v1))
      else v)"
  by pat_completeness auto
termination
  by (relation "measure (\<lambda>(shouldRetry, counter, next, request, attempts, i, v). nat (attempts - i))")
     auto

declare retry_loop.simps [simp del]

definition shouldRetryOf :: "RetryOptions \<Rightarrow> error \<Rightarrow> bool" where
  "shouldRetryOf o' = (case ShouldRetry o' of None \<Rightarrow> DefaultShouldRetry | Some f \<Rightarrow> f)"

text \<open>\<open>attempts := o.Retries + 1\<close>, a 64-bit addition that wraps.\<close>

definition attemptsOf :: "RetryOptions \<Rightarrow> int" where
  "attemptsOf o' = sint (Retries o' + 1)"

text \<open>The body of the closure that \<open>RetryTransactor\<close> returns, with its variables.\<close>

definition retry_run ::
  "RetryOptions \<Rightarrow> ('q, 'p, 'w) transactor \<Rightarrow> 'q \<Rightarrow> 'w \<Rightarrow> ('p, 'w) retry_vars" where
  "retry_run o' next request w =
     retry_loop (shouldRetryOf o') (Counter o') next request (attemptsOf o') 0
       \<lparr>rv_response = None, rv_err = None, rv_world = w, rv_counter = 0, attempted = []\<rparr>"

definition RetryTransactor ::
  "RetryOptions \<Rightarrow> ('q, 'p, 'w) transactor \<Rightarrow> ('q, 'p, 'w) transactor" where
  "RetryTransactor o' next =
     (if sint (Retries o') < 1 then next
      else (\<lambda>request w.
              let v = retry_run o' next request w
              in ((rv_response v, rv_err v), rv_world v)))"

text \<open>
  The retry as the spec words it, to compare the loop with: a retry count \<open>n\<close> gives up
  to \<open>n + 1\<close> attempts; after an attempt that failed with a retryable error the next
  attempt starts from the world the failed one left; an attempt that succeeded or
  failed otherwise, and the last attempt in any case, is the result.
\<close>

fun bounded_retry ::
  "(error \<Rightarrow> bool) \<Rightarrow> ('q, 'p, 'w) transactor \<Rightarrow> nat \<Rightarrow> ('q, 'p, 'w) transactor" where
  "bounded_retry shouldRetry nxt 0 request' w = nxt request' w"
| "bounded_retry shouldRetry nxt (Suc n) request' w =
     (case nxt request' w of
        ((response, err), w1) \<Rightarrow>
          (case err of
             None \<Rightarrow> ((response, err), w1)
           | Some e \<Rightarrow>
               if shouldRetry e then bounded_retry shouldRetry nxt n request' w1
               else ((response, err), w1)))"

text \<open>An attempt is retried when it failed and the predicate classifies the error so.\<close>

definition retried :: "(error \<Rightarrow> bool) \<Rightarrow> ('p option \<times> error option) \<Rightarrow> bool" where
  "retried shouldRetry outcome = (case snd outcome of None \<Rightarrow> False | Some e \<Rightarrow> shouldRetry e)"

section \<open>Package device: data\<close>

type_synonym ID = string

type_synonym bytes = "8 word list"

datatype Format = Msgpack | JSON

datatype MessageType = SimpleRequestResponseMessageType | OtherMessageType nat

record Message =
  m_Type :: MessageType
  m_Source :: string
  m_Destination :: string
  m_TransactionUUID :: string
  m_Payload :: bytes

text \<open>
  A device as \<open>newDevice\<close> makes it from its options. Its queue, its transaction
  tracker and the guard of its pumps are part of the state below.
\<close>

record device =
  d_id :: ID
  d_QueueSize :: int

record Request =
  rq_Message :: Message
  rq_Format :: Format
  rq_Contents :: bytes

record Response =
  rs_Device :: device
  rs_Message :: Message
  rs_Format :: Format
  rs_Contents :: bytes

text \<open>
  An envelope is a request with the channel on which the sender waits for the outcome.
  The channel is a handle; what is done to it is recorded in the state.
\<close>

record envelope =
  request :: Request
  complete :: nat

datatype chan_op = ChanSend error | ChanClose

text \<open>
  The event types. \<open>Connect\<close> and \<open>Disconnect\<close> are also methods of the manager, so the
  two constants carry a suffix here.
\<close>

datatype EventType =
    ConnectEvent
  | DisconnectEvent
  | MessageReceived
  | MessageSent
  | MessageFailed
  | TransactionComplete
  | TransactionBroken

text \<open>
  An event. \<open>e_Message\<close> and \<open>e_Error\<close> are nil when \<open>None\<close>; \<open>e_Format\<close> is \<open>None\<close>
  where the struct literal leaves the field out.
\<close>

record Event =
  e_Type :: EventType
  e_Device :: device
  e_Message :: "Message option"
  e_Format :: "Format option"
  e_Contents :: bytes
  e_Error :: "error option"

text \<open>Of the HTTP request, \<open>Connect\<close> reads the URL and the identifier in its context.\<close>

record http_request =
  r_URL :: string
  ctx_ID :: "ID option"

text \<open>The frame type of gorilla/websocket for binary data.\<close>

definition BinaryMessage :: int where
  "BinaryMessage = 2"

definition StatusInternalServerError :: nat where
  "StatusInternalServerError = 500"

section \<open>The state of the hub\<close>

text \<open>
  The state follows the manager and one connection: the registry \<open>devices\<close>, the
  events handed to the listeners in order, the error responses written with
  \<open>xhttp.WriteError\<close>, the calls of the upgrader, and for the connection the calls of
  \<open>Close\<close>, the pong handler, the pump pairs launched, the \<open>sync.Once\<close> shared by the
  two pumps (\<open>True\<close> once it has fired), the queue \<open>d.messages\<close>, the tracker
  \<open>d.transactions\<close>, what was done to the envelopes' channels, the frames handed to
  \<open>WriteMessage\<close>, the request/response measure, the pings sent and the two timers of
  the write pump. Log lines are not part of the state.
\<close>

record ('r, 't) hub =
  devices :: 'r
  deviceMessageQueueSize :: int
  dispatched :: "Event list"
  httpErrors :: "(nat \<times> error) list"
  upgrades :: nat
  closes :: nat
  pongHandler :: bool
  pumps :: "device list"
  closeOnce :: bool
  messages :: "envelope list"
  transactions :: 't
  chanOps :: "(nat \<times> chan_op) list"
  written :: "bytes list"
  requestResponse :: nat
  pings :: nat
  pingTickerStopped :: bool
  authStatusTimerStopped :: bool

text \<open>
  What the manager calls and this file does not hold: the websocket upgrader, the
  pinger's constructor, the registry (\<open>m.devices\<close>), the WRP codec and the methods of a
  message, the transaction tracker, and the request's and the device's methods used
  by \<open>Route\<close>. Each is a parameter. A call that fails returns \<open>Some err\<close> or \<open>Inl err\<close>.
\<close>

record ('r, 't) collaborators =
  upgrader_Upgrade :: "http_request \<Rightarrow> error option"
  NewPinger :: "ID \<Rightarrow> error option"
  devices_add :: "device \<Rightarrow> 'r \<Rightarrow> error option \<times> 'r"
  devices_remove :: "ID \<Rightarrow> 'r \<Rightarrow> device option \<times> 'r"
  devices_get :: "ID \<Rightarrow> 'r \<Rightarrow> device option"
  Decode :: "bytes \<Rightarrow> error + Message"
  Encode :: "Message \<Rightarrow> error + bytes"
  IsTransactionPart :: "Message \<Rightarrow> bool"
  TransactionKey :: "Message \<Rightarrow> string"
  transactions_Complete :: "string \<Rightarrow> Response \<Rightarrow> 't \<Rightarrow> error option \<times> 't"
  request_ID :: "Request \<Rightarrow> error + ID"
  device_Send ::
    "device \<Rightarrow> Request \<Rightarrow> ('r, 't) hub \<Rightarrow> (Response option \<times> error option) \<times> ('r, 't) hub"

section \<open>The manager\<close>

text \<open>\<open>dispatch\<close> calls every listener with the event, in the order of the calls.\<close>

definition dispatch :: "Event \<Rightarrow> ('r, 't) hub \<Rightarrow> ('r, 't) hub" where
  "dispatch e s = s\<lparr>dispatched := dispatched s @ [e]\<rparr>"

definition newDevice :: "ID \<Rightarrow> int \<Rightarrow> device" where
  "newDevice ident queueSize = \<lparr>d_id = ident, d_QueueSize = queueSize\<rparr>"

text \<open>
  \<open>Connect\<close> returns Go's pair \<open>(Interface, error)\<close>. The convey header is only logged.
\<close>

definition Connect ::
  "('r, 't) collaborators \<Rightarrow> http_request \<Rightarrow> ('r, 't) hub \<Rightarrow>
   (device option \<times> error option) \<times> ('r, 't) hub" where
  "Connect c request' s =
     (case ctx_ID request' of
        None \<Rightarrow>
          ((None, Some ErrorMissingDeviceNameContext),
           s\<lparr>httpErrors := httpErrors s @
                [(StatusInternalServerError, ErrorMissingDeviceNameContext)]\<rparr>)
      | Some ident \<Rightarrow>
          (let d = newDevice ident (deviceMessageQueueSize s);
               s1 = s\<lparr>upgrades := upgrades s + 1\<rparr>
           in case upgrader_Upgrade c request' of
                Some err \<Rightarrow> ((None, Some err), s1)
              | None \<Rightarrow>
                  (case NewPinger c (d_id d) of
                     Some err \<Rightarrow> ((None, Some err), s1\<lparr>closes := closes s1 + 1\<rparr>)
                   | None \<Rightarrow>
                       (case devices_add c d (devices s1) of
                          (Some err, r) \<Rightarrow>
                            ((None, Some err), s1\<lparr>devices := r, closes := closes s1 + 1\<rparr>)
                        | (None, r) \<Rightarrow>
                            (let s2 = dispatch
                                   \<lparr>e_Type = ConnectEvent, e_Device = d, e_Message = None,
                                    e_Format = None, e_Contents = [], e_Error = None\<rparr>
                                   (s1\<lparr>devices := r\<rparr>)
                             in ((Some d, None),
                                 s2\<lparr>pongHandler := True, closeOnce := False,
                                    pumps := pumps s2 @ [d]\<rparr>))))))"

text \<open>\<open>closeOnce.Do(f)\<close>: \<open>f\<close> runs on the first call only.\<close>

definition closeOnce_Do ::
  "(('r, 't) hub \<Rightarrow> ('r, 't) hub) \<Rightarrow> ('r, 't) hub \<Rightarrow> ('r, 't) hub" where
  "closeOnce_Do f s = (if closeOnce s then s else f (s\<lparr>closeOnce := True\<rparr>))"

text \<open>
  \<open>pumpClose\<close>. The pump's error and the error of \<open>Close\<close> are only logged; the event
  literal sets \<open>Type\<close> and \<open>Device\<close>.
\<close>

definition pumpClose ::
  "('r, 't) collaborators \<Rightarrow> device \<Rightarrow> error option \<Rightarrow> ('r, 't) hub \<Rightarrow> ('r, 't) hub" where
  "pumpClose c d pumpError s =
     (let s1 = s\<lparr>devices := snd (devices_remove c (d_id d) (devices s))\<rparr>;
          s2 = s1\<lparr>closes := closes s1 + 1\<rparr>
      in dispatch
           \<lparr>e_Type = DisconnectEvent, e_Device = d, e_Message = None, e_Format = None,
            e_Contents = [], e_Error = None\<rparr> s2)"

subsection \<open>The read pump\<close>

text \<open>What \<open>r.ReadMessage()\<close> returns: an error, or a frame type and its data.\<close>

datatype read_result = ReadError error | ReadFrame int bytes

datatype pump_status = Running | Exited

text \<open>
  The body of the loop for a frame that was read. One \<open>Event\<close> value is built with the
  type \<open>MessageReceived\<close>; for a transaction part its type is overwritten before the
  one call of \<open>dispatch\<close>.
\<close>

definition readFrame ::
  "('r, 't) collaborators \<Rightarrow> device \<Rightarrow> int \<Rightarrow> bytes \<Rightarrow> ('r, 't) hub \<Rightarrow> ('r, 't) hub" where
  "readFrame c d messageType data s =
     (if messageType \<noteq> BinaryMessage then s
      else case Decode c data of
             Inl err \<Rightarrow> s
           | Inr message \<Rightarrow>
               (let event = \<lparr>e_Type = MessageReceived, e_Device = d, e_Message = Some message,
                             e_Format = Some Msgpack, e_Contents = data, e_Error = None\<rparr>;
                    s1 = (if m_Type message = SimpleRequestResponseMessageType
                          then s\<lparr>requestResponse := requestResponse s + 1\<rparr> else s)
                in if IsTransactionPart c message then
                     (case transactions_Complete c (TransactionKey c message)
                             \<lparr>rs_Device = d, rs_Message = message, rs_Format = Msgpack,
                              rs_Contents = data\<rparr> (transactions s1) of
                        (Some err, t) \<Rightarrow>
                          dispatch (event\<lparr>e_Type := TransactionBroken, e_Error := Some err\<rparr>)
                            (s1\<lparr>transactions := t\<rparr>)
                      | (None, t) \<Rightarrow>
                          dispatch (event\<lparr>e_Type := TransactionComplete\<rparr>)
                            (s1\<lparr>transactions := t\<rparr>))
                   else dispatch event s1))"

text \<open>
  The pump over the results of its reads, in order; with no result left it waits in
  \<open>ReadMessage\<close>. In the loop \<open>messageType, data, readError := r.ReadMessage()\<close> declares
  a new \<open>readError\<close>, so the variable of that name which the deferred call hands to
  \<open>pumpClose\<close> is still nil.
\<close>

fun readPump ::
  "('r, 't) collaborators \<Rightarrow> device \<Rightarrow> read_result list \<Rightarrow> ('r, 't) hub \<Rightarrow>
   pump_status \<times> ('r, 't) hub" where
  "readPump c d [] s = (Running, s)"
| "readPump c d (ReadError readError # rest) s = (Exited, closeOnce_Do (pumpClose c d None) s)"
| "readPump c d (ReadFrame messageType data # rest) s =
     readPump c d rest (readFrame c d messageType data s)"

subsection \<open>The write pump\<close>

text \<open>
  What wakes the \<open>select\<close> of the write pump: the shutdown signal (with what
  \<open>w.Close()\<close> returns), an envelope from \<open>d.messages\<close> (with what \<open>w.WriteMessage\<close>
  returns if it is called), or a tick (with what \<open>pinger()\<close> returns). The shutdown
  signal is raised when the registry removes the device; that code is among the
  collaborators, so the model takes the signal as it arrives.
\<close>

datatype wakeup = Shutdown "error option" | Dequeue "error option" | Tick "error option"

definition message_event ::
  "EventType \<Rightarrow> device \<Rightarrow> envelope \<Rightarrow> error option \<Rightarrow> Event" where
  "message_event t d env writeError =
     \<lparr>e_Type = t, e_Device = d, e_Message = Some (rq_Message (request env)),
      e_Format = Some (rq_Format (request env)), e_Contents = rq_Contents (request env),
      e_Error = writeError\<rparr>"

text \<open>The frame to write: the cached contents, or the message encoded here.\<close>

definition frameOf :: "('r, 't) collaborators \<Rightarrow> envelope \<Rightarrow> error + bytes" where
  "frameOf c env =
     (if rq_Format (request env) = Msgpack \<and> length (rq_Contents (request env)) > 0
      then Inr (rq_Contents (request env))
      else Encode c (rq_Message (request env)))"

text \<open>The case \<open>envelope = <-d.messages\<close>, after the receive.\<close>

definition writeEnvelope ::
  "('r, 't) collaborators \<Rightarrow> device \<Rightarrow> envelope \<Rightarrow> error option \<Rightarrow> ('r, 't) hub \<Rightarrow>
   error option \<times> ('r, 't) hub" where
  "writeEnvelope c d env writeResult s =
     (case (case frameOf c env of
              Inl err \<Rightarrow> (Some err, s)
            | Inr frameContents \<Rightarrow>
                (writeResult, s\<lparr>written := written s @ [frameContents]\<rparr>)) of
        (None, s1) \<Rightarrow>
          (None,
           dispatch (message_event MessageSent d env None)
             (s1\<lparr>chanOps := chanOps s1 @ [(complete env, ChanClose)]\<rparr>))
      | (Some writeError, s1) \<Rightarrow>
          (Some writeError,
           dispatch (message_event MessageFailed d env (Some writeError))
             (s1\<lparr>chanOps := chanOps s1 @
                   [(complete env, ChanSend writeError), (complete env, ChanClose)]\<rparr>)))"

text \<open>
  The loop \<open>for writeError == nil\<close> over the wake-ups, in order. It returns whether the
  loop was left, and then \<open>envelope\<close> and \<open>writeError\<close> as the deferred function finds
  them. A receive from an empty queue is not ready and wakes nothing.
\<close>

fun writeLoop ::
  "('r, 't) collaborators \<Rightarrow> device \<Rightarrow> wakeup list \<Rightarrow> ('r, 't) hub \<Rightarrow>
   pump_status \<times> envelope option \<times> error option \<times> ('r, 't) hub" where
  "writeLoop c d [] s = (Running, None, None, s)"
| "writeLoop c d (Shutdown closeResult # rest) s =
     (Exited, None, closeResult, s\<lparr>closes := closes s + 1\<rparr>)"
| "writeLoop c d (Dequeue writeResult # rest) s =
     (case messages s of
        [] \<Rightarrow> writeLoop c d rest s
      | env # queue \<Rightarrow>
          (case writeEnvelope c d env writeResult (s\<lparr>messages := queue\<rparr>) of
             (None, s1) \<Rightarrow> writeLoop c d rest s1
           | (Some writeError, s1) \<Rightarrow> (Exited, Some env, Some writeError, s1)))"
| "writeLoop c d (Tick pingResult # rest) s =
     (case pingResult of
        None \<Rightarrow> writeLoop c d rest (s\<lparr>pings := pings s + 1\<rparr>)
      | Some writeError \<Rightarrow> (Exited, None, Some writeError, s\<lparr>pings := pings s + 1\<rparr>))"

text \<open>
  The drain at the end of the deferred function: every envelope still queued is
  received and dispatched as \<open>MessageFailed\<close>, with \<open>Error: writeError\<close>.
\<close>

fun drain ::
  "device \<Rightarrow> error option \<Rightarrow> envelope list \<Rightarrow> ('r, 't) hub \<Rightarrow> ('r, 't) hub" where
  "drain d writeError [] s = s"
| "drain d writeError (undeliverable # queue) s =
     drain d writeError queue
       (dispatch (message_event MessageFailed d undeliverable writeError)
          (s\<lparr>messages := queue\<rparr>))"

text \<open>The deferred function of the write pump.\<close>

definition writePump_deferred ::
  "('r, 't) collaborators \<Rightarrow> device \<Rightarrow> envelope option \<Rightarrow> error option \<Rightarrow>
   ('r, 't) hub \<Rightarrow> ('r, 't) hub" where
  "writePump_deferred c d envelope' writeError s =
     (let s1 = s\<lparr>pingTickerStopped := True, authStatusTimerStopped := True\<rparr>;
          s2 = closeOnce_Do (pumpClose c d writeError) s1;
          s3 = (case envelope' of
                  None \<Rightarrow> s2
                | Some env \<Rightarrow> dispatch (message_event MessageFailed d env writeError) s2)
      in drain d writeError (messages s3) s3)"

definition writePump ::
  "('r, 't) collaborators \<Rightarrow> device \<Rightarrow> wakeup list \<Rightarrow> ('r, 't) hub \<Rightarrow>
   pump_status \<times> ('r, 't) hub" where
  "writePump c d wakeups s =
     (case writeLoop c d wakeups s of
        (Running, envelope', writeError, s1) \<Rightarrow> (Running, s1)
      | (Exited, envelope', writeError, s1) \<Rightarrow>
          (Exited, writePump_deferred c d envelope' writeError s1))"

subsection \<open>Routing\<close>

definition Route ::
  "('r, 't) collaborators \<Rightarrow> Request \<Rightarrow> ('r, 't) hub \<Rightarrow>
   (Response option \<times> error option) \<times> ('r, 't) hub" where
  "Route c request' s =
     (case request_ID c request' of
        Inl err \<Rightarrow> ((None, Some err), s)
      | Inr destination \<Rightarrow>
          (case devices_get c destination (devices s) of
             Some d \<Rightarrow> device_Send c d request' s
           | None \<Rightarrow> ((None, Some ErrorDeviceNotFound), s)))"

section \<open>The registry and the tracker\<close>

text \<open>
  Modelled from the spec: the registry (\<open>m.devices\<close>, defined in a source file that is
  not at hand). It is a table from identifier to device with a configured maximum.
  \<open>add\<close> fails with \<open>CapacityExceeded\<close> at the limit and with \<open>DuplicateID\<close> when the
  identifier is present, and then leaves the table as it was.
\<close>

record registry =
  reg_limit :: nat
  reg_data :: "(ID \<times> device) list"

definition registry_add :: "device \<Rightarrow> registry \<Rightarrow> error option \<times> registry" where
  "registry_add d r =
     (if reg_limit r \<le> length (reg_data r) then (Some ErrorCapacityExceeded, r)
      else if d_id d \<in> fst ` set (reg_data r) then (Some ErrorDuplicateID, r)
      else (None, r\<lparr>reg_data := reg_data r @ [(d_id d, d)]\<rparr>))"

text \<open>
  Modelled from the spec: \<open>remove(id)\<close> removes and returns the prior occupant, and
  \<open>get(id)\<close> looks a device up.
\<close>

definition registry_remove :: "ID \<Rightarrow> registry \<Rightarrow> device option \<times> registry" where
  "registry_remove ident r =
     (map_of (reg_data r) ident,
      r\<lparr>reg_data := filter (\<lambda>entry. fst entry \<noteq> ident) (reg_data r)\<rparr>)"

definition registry_get :: "ID \<Rightarrow> registry \<Rightarrow> device option" where
  "registry_get ident r = map_of (reg_data r) ident"

text \<open>
  Modelled from the spec: the transaction tracker, as the keys of the open
  transactions. Completing an open key succeeds and closes it; completing a key that is
  not open (never opened, or completed before) is an error.
\<close>

definition tracker_Complete ::
  "string \<Rightarrow> Response \<Rightarrow> string list \<Rightarrow> error option \<times> string list" where
  "tracker_Complete key response t =
     (if key \<in> set t then (None, removeAll key t) else (Some ErrorNoSuchTransactionKey, t))"

section \<open>An instance to run the model on\<close>

text \<open>
  A small codec stands in for msgpack: the first byte of a frame is the message type
  (3 is a request/response, which carries the transaction key \<open>tid\<close>), the rest is the
  payload; the empty frame does not decode.
\<close>

definition example_Decode :: "bytes \<Rightarrow> error + Message" where
  "example_Decode data =
     (case data of
        [] \<Rightarrow> Inl (PlainError ''EOF'')
      | tag # payload \<Rightarrow>
          Inr \<lparr>m_Type = (if tag = 3 then SimpleRequestResponseMessageType
                          else OtherMessageType (unat tag)),
               m_Source = ''dev-1'', m_Destination = ''hub'',
               m_TransactionUUID = (if tag = 3 then ''tid'' else []),
               m_Payload = payload\<rparr>)"

definition example_Encode :: "Message \<Rightarrow> error + bytes" where
  "example_Encode message =
     (case m_Type message of
        SimpleRequestResponseMessageType \<Rightarrow> Inr (3 # m_Payload message)
      | OtherMessageType n \<Rightarrow>
          if n < 256 then Inr (of_nat n # m_Payload message)
          else Inl (PlainError ''unsupported type''))"

definition example_ID :: "Request \<Rightarrow> error + ID" where
  "example_ID request' =
     (if m_Destination (rq_Message request') = [] then Inl (PlainError ''invalid id'')
      else Inr (m_Destination (rq_Message request')))"

definition example_Send ::
  "device \<Rightarrow> Request \<Rightarrow> (registry, string list) hub \<Rightarrow>
   (Response option \<times> error option) \<times> (registry, string list) hub" where
  "example_Send d request' s =
     ((None, None),
      s\<lparr>messages := messages s @ [\<lparr>request = request', complete = length (messages s)\<rparr>]\<rparr>)"

definition example_hub :: "(registry, string list) collaborators" where
  "example_hub =
     \<lparr>upgrader_Upgrade = (\<lambda>request'. if r_URL request' = ''/device'' then None
                                       else Some (PlainError ''bad handshake'')),
      NewPinger = (\<lambda>ident. None),
      devices_add = registry_add,
      devices_remove = registry_remove,
      devices_get = registry_get,
      Decode = example_Decode,
      Encode = example_Encode,
      IsTransactionPart = (\<lambda>message. m_TransactionUUID message \<noteq> []),
      TransactionKey = m_TransactionUUID,
      transactions_Complete = tracker_Complete,
      request_ID = example_ID,
      device_Send = example_Send\<rparr>"

definition dev1 :: device where
  "dev1 = \<lparr>d_id = ''dev-1'', d_QueueSize = 100\<rparr>"

text \<open>A hub with \<open>dev-1\<close> connected, room for one device, and one open transaction.\<close>

definition hub1 :: "(registry, string list) hub" where
  "hub1 =
     \<lparr>devices = \<lparr>reg_limit = 1, reg_data = [(''dev-1'', dev1)]\<rparr>,
      deviceMessageQueueSize = 100, dispatched = [], httpErrors = [], upgrades = 0,
      closes = 0, pongHandler = True, pumps = [dev1], closeOnce = False, messages = [],
      transactions = [''tid''], chanOps = [], written = [], requestResponse = 0,
      pings = 0, pingTickerStopped = False, authStatusTimerStopped = False\<rparr>"

definition request1 :: Request where
  "request1 =
     \<lparr>rq_Message = \<lparr>m_Type = OtherMessageType 4, m_Source = ''hub'',
                     m_Destination = ''dev-1'', m_TransactionUUID = [],
                     m_Payload = [7]\<rparr>,
      rq_Format = Msgpack, rq_Contents = [4, 7]\<rparr>"

definition request2 :: Request where
  "request2 =
     \<lparr>rq_Message = \<lparr>m_Type = OtherMessageType 5, m_Source = ''hub'',
                     m_Destination = ''dev-2'', m_TransactionUUID = [],
                     m_Payload = [9]\<rparr>,
      rq_Format = JSON, rq_Contents = [123, 125]\<rparr>"


text \<open>The same hub with two envelopes waiting in the queue of \<open>dev-1\<close>.\<close>

definition hub1_queued :: "(registry, string list) hub" where
  "hub1_queued =
     hub1\<lparr>messages := [\<lparr>request = request1, complete = 0\<rparr>,
                        \<lparr>request = request2, complete = 1\<rparr>]\<rparr>"

text \<open>A request that always fails with a temporary error, and two retries.\<close>

definition always_failing :: "(string, string, nat) transactor" where
  "always_failing request' w = ((None, Some (TemporaryError ''timeout'' True)), w + 1)"

definition two_retries :: RetryOptions where
  "two_retries = \<lparr>Retries = 2, ShouldRetry = None, Counter = True\<rparr>"

text \<open>
  The largest retry count a 64-bit \<open>int\<close> holds, and a request that always succeeds.
  Both example requests count their calls in the world.
\<close>

definition max_retries :: RetryOptions where
  "max_retries = \<lparr>Retries = 0x7FFFFFFFFFFFFFFF, ShouldRetry = None, Counter = True\<rparr>"

definition always_succeeding :: "(string, string, nat) transactor" where
  "always_succeeding request' w = ((Some ''200 OK'', None), w + 1)"

section \<open>Observations\<close>

text \<open>The disconnect events among the events dispatched so far.\<close>

definition disconnects :: "('r, 't) hub \<Rightarrow> Event list" where
  "disconnects s = filter (\<lambda>e. e_Type e = DisconnectEvent) (dispatched s)"

section \<open>The retry transactor: proofs\<close>

text \<open>
  The loop from any point on: the outcomes it adds to \<open>attempted\<close> are at most
  \<open>attempts - i\<close> many, all but the last were retried, each is an outcome of the wrapped
  function, the last is what the loop returns, and the loop stops short of \<open>attempts\<close>
  only after an outcome that is not retried.
\<close>

lemma retry_loop_attempted:
  "\<exists>new. attempted (retry_loop sr c nxt rq a i v) = attempted v @ new
     \<and> length new \<le> nat (a - i)
     \<and> list_all (retried sr) (butlast new)
     \<and> (\<forall>x \<in> set new. \<exists>w'. x = fst (nxt rq w'))
     \<and> (new \<noteq> [] \<longrightarrow> (rv_response (retry_loop sr c nxt rq a i v), rv_err (retry_loop sr c nxt rq a i v)) = last new)
     \<and> (length new < nat (a - i) \<longrightarrow> new \<noteq> [] \<and> \<not> retried sr (last new))
     \<and> (new = [] \<longrightarrow> retry_loop sr c nxt rq a i v = v)"
proof (induction sr c nxt rq a i v rule: retry_loop.induct)
  case (1 sr c nxt rq a i v)
  show ?case
  proof (cases "i < a")
    case False
    then show ?thesis by (simp add: retry_loop.simps)
  next
    case True
    obtain r e w where nx: "nxt rq (rv_world v) = ((r, e), w)"
      by (metis prod.exhaust)
    have pr: "\<exists>w'. (r, e) = fst (nxt rq w')" using nx by (metis fst_conv)
    define v1 where "v1 = v\<lparr>rv_response := r, rv_err := e, rv_world := w, attempted := attempted v @ [(r, e)]\<rparr>"
    show ?thesis
    proof (cases e)
      case None
      have "retry_loop sr c nxt rq a i v = v1"
        using True nx None by (simp add: retry_loop.simps [of sr c nxt rq a i v] v1_def)
      then show ?thesis using True None pr
        by (intro exI [of _ "[(r, e)]"]) (simp add: v1_def retried_def)
    next
      case (Some x)
      show ?thesis
      proof (cases "sr x")
        case False
        have "retry_loop sr c nxt rq a i v = v1"
          using True nx Some False by (simp add: retry_loop.simps [of sr c nxt rq a i v] v1_def)
        then show ?thesis using True Some False pr
          by (intro exI [of _ "[(r, e)]"]) (simp add: v1_def retried_def)
      next
        case sx: True
        define v2 where "v2 = (if c then v1\<lparr>rv_counter := rv_counter v1 + 1\<rparr> else v1)"
        have eq: "retry_loop sr c nxt rq a i v = retry_loop sr c nxt rq a (i + 1) v2"
          using True nx Some sx by (simp add: retry_loop.simps [of sr c nxt rq a i v] v1_def v2_def)
        have "\<exists>new. attempted (retry_loop sr c nxt rq a (i + 1) v2) = attempted v2 @ new
     \<and> length new \<le> nat (a - (i + 1))
     \<and> list_all (retried sr) (butlast new)
     \<and> (\<forall>x \<in> set new. \<exists>w'. x = fst (nxt rq w'))
     \<and> (new \<noteq> [] \<longrightarrow> (rv_response (retry_loop sr c nxt rq a (i + 1) v2), rv_err (retry_loop sr c nxt rq a (i + 1) v2)) = last new)
     \<and> (length new < nat (a - (i + 1)) \<longrightarrow> new \<noteq> [] \<and> \<not> retried sr (last new))
     \<and> (new = [] \<longrightarrow> retry_loop sr c nxt rq a (i + 1) v2 = v2)"
          using "1.IH" [OF True nx [symmetric] refl v1_def Some sx] 
          unfolding v2_def [symmetric] .
        then obtain new where n: "attempted (retry_loop sr c nxt rq a (i + 1) v2) = attempted v2 @ new"
          "length new \<le> nat (a - (i + 1))" "list_all (retried sr) (butlast new)"
          "\<forall>x \<in> set new. \<exists>w'. x = fst (nxt rq w')"
          "new \<noteq> [] \<longrightarrow> (rv_response (retry_loop sr c nxt rq a (i + 1) v2), rv_err (retry_loop sr c nxt rq a (i + 1) v2)) = last new"
          "length new < nat (a - (i + 1)) \<longrightarrow> new \<noteq> [] \<and> \<not> retried sr (last new)"
          "new = [] \<longrightarrow> retry_loop sr c nxt rq a (i + 1) v2 = v2"
          by blast
        have av2: "attempted v2 = attempted v @ [(r, e)]" "rv_response v2 = r" "rv_err v2 = e"
          by (simp_all add: v2_def v1_def)
        have rt: "retried sr (r, e)" using Some sx by (simp add: retried_def)
        show ?thesis
          apply (rule exI [of _ "(r, e) # new"])
          using n av2 rt pr True unfolding eq
          by (cases "new = []") (auto)
      qed
    qed
  qed
qed

text \<open>The 64-bit successor, read as a signed number.\<close>

lemma sint_succ64: "sint (n :: 64 word) < 2 ^ 63 - 1 \<Longrightarrow> sint (n + 1) = sint n + 1"
proof -
  assume a: "sint n < 2 ^ 63 - 1"
  have lo: "- (2 ^ 63) \<le> sint n" using sint_ge [of n] by simp
  have "sint (n + 1) = signed_take_bit 63 (sint n + 1)"
    by (simp add: sint_word_ariths)
  also have "\<dots> = sint n + 1"
    using a lo by (simp add: signed_take_bit_int_eq_self)
  finally show ?thesis .
qed

lemma sint_succ64_le: "sint ((n :: 64 word) + 1) \<le> sint n + 1"
proof (cases "sint n < 2 ^ 63 - 1")
  case True
  then show ?thesis by (simp add: sint_succ64)
next
  case False
  have "sint n < 2 ^ 63" using sint_lt [of n] by simp
  with False have "sint n = 2 ^ 63 - 1" by simp
  moreover have "sint (n + 1) < 2 ^ 63" using sint_lt [of "n + 1"] by simp
  ultimately show ?thesis by simp
qed

text \<open>The same facts for a whole call of the decorated function.\<close>

lemma retry_run_attempted:
  shows retry_run_length: "length (attempted (retry_run o' nxt rq w)) \<le> nat (attemptsOf o')"
    and retry_run_butlast:
      "list_all (retried (shouldRetryOf o')) (butlast (attempted (retry_run o' nxt rq w)))"
    and retry_run_outcomes:
      "\<forall>x \<in> set (attempted (retry_run o' nxt rq w)). \<exists>w'. x = fst (nxt rq w')"
    and retry_run_last:
      "attempted (retry_run o' nxt rq w) \<noteq> [] \<Longrightarrow>
        (rv_response (retry_run o' nxt rq w), rv_err (retry_run o' nxt rq w)) =
        last (attempted (retry_run o' nxt rq w))"
    and retry_run_early:
      "length (attempted (retry_run o' nxt rq w)) < nat (attemptsOf o') \<Longrightarrow>
        attempted (retry_run o' nxt rq w) \<noteq> [] \<and>
        \<not> retried (shouldRetryOf o') (last (attempted (retry_run o' nxt rq w)))"
proof -
  obtain new where n:
    "attempted (retry_run o' nxt rq w) = new"
    "length new \<le> nat (attemptsOf o')"
    "list_all (retried (shouldRetryOf o')) (butlast new)"
    "\<forall>x \<in> set new. \<exists>w'. x = fst (nxt rq w')"
    "new \<noteq> [] \<longrightarrow>
       (rv_response (retry_run o' nxt rq w), rv_err (retry_run o' nxt rq w)) = last new"
    "length new < nat (attemptsOf o') \<longrightarrow> new \<noteq> [] \<and> \<not> retried (shouldRetryOf o') (last new)"
    using retry_loop_attempted [of "shouldRetryOf o'" "Counter o'" nxt rq "attemptsOf o'" 0
      "\<lparr>rv_response = None, rv_err = None, rv_world = w, rv_counter = 0, attempted = []\<rparr>"]
    unfolding retry_run_def by (elim exE conjE) simp
  show "length (attempted (retry_run o' nxt rq w)) \<le> nat (attemptsOf o')"
    using n(1,2) by simp
  show "list_all (retried (shouldRetryOf o')) (butlast (attempted (retry_run o' nxt rq w)))"
    using n(1,3) by simp
  show "\<forall>x \<in> set (attempted (retry_run o' nxt rq w)). \<exists>w'. x = fst (nxt rq w')"
    using n(1,4) by simp
  show "attempted (retry_run o' nxt rq w) \<noteq> [] \<Longrightarrow>
        (rv_response (retry_run o' nxt rq w), rv_err (retry_run o' nxt rq w)) =
        last (attempted (retry_run o' nxt rq w))"
    using n(1,5) by simp
  show "length (attempted (retry_run o' nxt rq w)) < nat (attemptsOf o') \<Longrightarrow>
        attempted (retry_run o' nxt rq w) \<noteq> [] \<and>
        \<not> retried (shouldRetryOf o') (last (attempted (retry_run o' nxt rq w)))"
    using n(1,6) by simp
qed

text \<open>The default classification.\<close>

lemma retried_default:
  "ShouldRetry o' = None \<Longrightarrow>
   retried (shouldRetryOf o') (p, e) = (\<exists>msg. e = Some (TemporaryError msg True))"
proof (cases e)
  case None
  then show ?thesis by (simp add: retried_def)
next
  case (Some x)
  assume "ShouldRetry o' = None"
  then show ?thesis using Some
    by (cases x) (simp_all add: retried_def shouldRetryOf_def)
qed

text \<open>
  The loop in terms of its attempts. If the configured retry count is not positive,
  \<open>RetryTransactor\<close> returns the wrapped function itself. If it is at least 1, the
  decorated function returns the outcome of its last call of the wrapped function and
  makes at most \<open>Retries + 1\<close> calls; every call but the last failed with an error
  classified retryable; below the largest 64-bit count there is at least one call, and
  fewer than \<open>Retries + 1\<close> calls are made only when the last was not retryable. With
  no predicate configured, retryable means an error whose \<open>Temporary\<close> method returns
  true. With \<open>Retries = 2\<close> and a wrapped function that always fails retryably there
  are exactly 3 calls.
\<close>

lemma RetryTransactor_bounded_retry:
  "(sint (Retries o') < 1 \<longrightarrow> RetryTransactor o' nxt = nxt) \<and>
   (1 \<le> sint (Retries o') \<longrightarrow>
      RetryTransactor o' nxt rq w =
        ((rv_response (retry_run o' nxt rq w), rv_err (retry_run o' nxt rq w)),
         rv_world (retry_run o' nxt rq w))
      \<and> length (attempted (retry_run o' nxt rq w)) \<le> nat (sint (Retries o')) + 1
      \<and> list_all (retried (shouldRetryOf o')) (butlast (attempted (retry_run o' nxt rq w)))
      \<and> (attempted (retry_run o' nxt rq w) \<noteq> [] \<longrightarrow>
           (rv_response (retry_run o' nxt rq w), rv_err (retry_run o' nxt rq w)) =
           last (attempted (retry_run o' nxt rq w)))
      \<and> (sint (Retries o') < 2 ^ 63 - 1 \<longrightarrow>
           attempted (retry_run o' nxt rq w) \<noteq> [] \<and>
           (length (attempted (retry_run o' nxt rq w)) < nat (sint (Retries o')) + 1 \<longrightarrow>
              \<not> retried (shouldRetryOf o') (last (attempted (retry_run o' nxt rq w)))))) \<and>
   (ShouldRetry o' = None \<longrightarrow>
      retried (shouldRetryOf o') (p, e) = (\<exists>msg. e = Some (TemporaryError msg True))) \<and>
   (Retries o' = 2 \<and> (\<forall>w'. retried (shouldRetryOf o') (fst (nxt rq w'))) \<longrightarrow>
      length (attempted (retry_run o' nxt rq w)) = 3)"
proof (intro conjI impI)
  assume "sint (Retries o') < 1"
  then show "RetryTransactor o' nxt = nxt" by (simp add: RetryTransactor_def)
next
  assume "1 \<le> sint (Retries o')"
  then show "RetryTransactor o' nxt rq w =
        ((rv_response (retry_run o' nxt rq w), rv_err (retry_run o' nxt rq w)),
         rv_world (retry_run o' nxt rq w))"
    by (simp add: RetryTransactor_def Let_def)
next
  assume n: "1 \<le> sint (Retries o')"
  have "length (attempted (retry_run o' nxt rq w)) \<le> nat (attemptsOf o')"
    by (rule retry_run_length)
  also have "\<dots> \<le> nat (sint (Retries o') + 1)"
    using sint_succ64_le [of "Retries o'"] by (simp add: attemptsOf_def)
  finally show "length (attempted (retry_run o' nxt rq w)) \<le> nat (sint (Retries o')) + 1"
    using n by simp
next
  show "list_all (retried (shouldRetryOf o')) (butlast (attempted (retry_run o' nxt rq w)))"
    by (rule retry_run_butlast)
next
  assume "attempted (retry_run o' nxt rq w) \<noteq> []"
  then show "(rv_response (retry_run o' nxt rq w), rv_err (retry_run o' nxt rq w)) =
           last (attempted (retry_run o' nxt rq w))"
    by (rule retry_run_last)
next
  assume n: "1 \<le> sint (Retries o')" and m: "sint (Retries o') < 2 ^ 63 - 1"
  have a: "attemptsOf o' = sint (Retries o') + 1"
    using m by (simp add: attemptsOf_def sint_succ64)
  show "attempted (retry_run o' nxt rq w) \<noteq> []"
  proof (cases "length (attempted (retry_run o' nxt rq w)) < nat (attemptsOf o')")
    case True
    then show ?thesis using retry_run_early [of o' nxt rq w] by simp
  next
    case False
    then show ?thesis using n a by auto
  qed
next
  assume n: "1 \<le> sint (Retries o')" and m: "sint (Retries o') < 2 ^ 63 - 1"
    and l: "length (attempted (retry_run o' nxt rq w)) < nat (sint (Retries o')) + 1"
  have a: "attemptsOf o' = sint (Retries o') + 1"
    using m by (simp add: attemptsOf_def sint_succ64)
  have "length (attempted (retry_run o' nxt rq w)) < nat (attemptsOf o')"
    using l n a by simp
  then show "\<not> retried (shouldRetryOf o') (last (attempted (retry_run o' nxt rq w)))"
    using retry_run_early [of o' nxt rq w] by simp
next
  assume "ShouldRetry o' = None"
  then show "retried (shouldRetryOf o') (p, e) = (\<exists>msg. e = Some (TemporaryError msg True))"
    by (rule retried_default)
next
  assume h: "Retries o' = 2 \<and> (\<forall>w'. retried (shouldRetryOf o') (fst (nxt rq w')))"
  have a: "attemptsOf o' = 3" using h by (simp add: attemptsOf_def)
  let ?tr = "attempted (retry_run o' nxt rq w)"
  have le: "length ?tr \<le> 3"
    using retry_run_length [of o' nxt rq w] a by simp
  have "\<not> length ?tr < 3"
  proof
    assume "length ?tr < 3"
    then have ne: "?tr \<noteq> []" and nr: "\<not> retried (shouldRetryOf o') (last ?tr)"
      using retry_run_early [of o' nxt rq w] a by simp_all
    from ne have "last ?tr \<in> set ?tr" by simp
    then obtain w' where "last ?tr = fst (nxt rq w')"
      using retry_run_outcomes [of o' nxt rq w] by blast
    with h nr show False by simp
  qed
  with le show "length ?tr = 3" by simp
qed

text \<open>The run with two retries of a request that always fails retryably.\<close>

lemma retry_run_two_retries:
  "retry_run two_retries always_failing ''GET /'' 0 =
     \<lparr>rv_response = None, rv_err = Some (TemporaryError ''timeout'' True), rv_world = 3,
      rv_counter = 3,
      attempted = replicate 3 (None, Some (TemporaryError ''timeout'' True))\<rparr>"
  by (simp add: retry_run_def two_retries_def always_failing_def attemptsOf_def
      shouldRetryOf_def retry_loop.simps numeral_3_eq_3)

text \<open>
  The same at \<open>Retries = 2\<close>, the default predicate, and a request that always fails
  with a temporary error: three calls, and the last error is returned.
\<close>

lemma RetryTransactor_two_retries_three_calls:
  "1 \<le> sint (Retries two_retries) \<and> sint (Retries two_retries) < 2 ^ 63 - 1 \<and>
   ShouldRetry two_retries = None \<and> Retries two_retries = 2 \<and>
   (\<forall>w'. retried (shouldRetryOf two_retries) (fst (always_failing ''GET /'' w'))) \<and>
   length (attempted (retry_run two_retries always_failing ''GET /'' 0)) = 3 \<and>
   RetryTransactor two_retries always_failing ''GET /'' 0 =
     ((None, Some (TemporaryError ''timeout'' True)), 3)"
  using RetryTransactor_bounded_retry [of two_retries always_failing "''GET /''" 0]
  by (simp add: retry_run_two_retries)
     (simp add: two_retries_def always_failing_def retried_def shouldRetryOf_def)

text \<open>
  With \<open>n + 1\<close> turns of the loop left, the loop returns what the retry of the spec
  returns for \<open>n\<close>, from the same world; so for every count from 1 to below the largest
  the decorated function is that retry.
\<close>

lemma retry_loop_bounded_retry:
  "attempts - i = int (Suc n) \<Longrightarrow>
   ((rv_response (retry_loop sr c nxt rq attempts i v),
     rv_err (retry_loop sr c nxt rq attempts i v)),
    rv_world (retry_loop sr c nxt rq attempts i v)) =
   bounded_retry sr nxt n rq (rv_world v)"
proof (induction n arbitrary: i v)
  case 0
  then have i: "i < attempts" and l: "\<not> i + 1 < attempts" by simp_all
  obtain r e w where nx: "nxt rq (rv_world v) = ((r, e), w)"
    by (metis prod.exhaust)
  show ?case
    using i l nx
    by (cases e)
       (simp_all add: retry_loop.simps [of sr c nxt rq attempts i]
          retry_loop.simps [of sr c nxt rq attempts "i + 1"] Let_def)
next
  case (Suc n)
  then have i: "i < attempts" and d: "attempts - (i + 1) = int (Suc n)" by simp_all
  obtain r e w where nx: "nxt rq (rv_world v) = ((r, e), w)"
    by (metis prod.exhaust)
  show ?case
  proof (cases e)
    case None
    then show ?thesis using i nx
      by (simp add: retry_loop.simps [of sr c nxt rq attempts i])
  next
    case (Some x)
    show ?thesis
    proof (cases "sr x")
      case False
      then show ?thesis using i nx Some
        by (simp add: retry_loop.simps [of sr c nxt rq attempts i] Let_def)
    next
      case True
      then show ?thesis using i nx Some
        by (simp add: retry_loop.simps [of sr c nxt rq attempts i] Let_def Suc.IH [OF d])
    qed
  qed
qed

lemma RetryTransactor_below_max:
  assumes "1 \<le> sint (Retries o')" and "sint (Retries o') < 2 ^ 63 - 1"
  shows "RetryTransactor o' nxt rq w =
           bounded_retry (shouldRetryOf o') nxt (nat (sint (Retries o'))) rq w"
proof -
  have a: "attemptsOf o' = sint (Retries o') + 1"
    using assms(2) by (simp add: attemptsOf_def sint_succ64)
  have "attemptsOf o' - 0 = int (Suc (nat (sint (Retries o'))))"
    using assms(1) a by simp
  from retry_loop_bounded_retry [OF this, of "shouldRetryOf o'" "Counter o'" nxt rq
      "\<lparr>rv_response = None, rv_err = None, rv_world = w, rv_counter = 0, attempted = []\<rparr>"]
  show ?thesis using assms(1)
    by (simp add: RetryTransactor_def retry_run_def Let_def)
qed

text \<open>
  C3. The claim promises for every retry count of at least 1 that the decorated
  function calls the wrapped function until the first attempt whose error is nil or not
  retryable, or until \<open>Retries + 1\<close> attempts are made, and returns the last response
  and error. At the largest 64-bit count, which is at least 1, \<open>Retries + 1\<close> wraps
  to a negative number: the decorated function makes no call at all (the world, which
  counts the calls, is unchanged) and returns \<open>(nil, nil)\<close>, both for a request that
  would fail with a retryable error on every call and for one that would succeed on the
  first.
\<close>

theorem RetryTransactor_max_retries_makes_no_attempt:
  "1 \<le> sint (Retries max_retries)
   \<and> attempted (retry_run max_retries always_failing ''GET /'' 0) = []
   \<and> RetryTransactor max_retries always_failing ''GET /'' 0 = ((None, None), 0)
   \<and> RetryTransactor max_retries always_succeeding ''GET /'' 0 = ((None, None), 0)
   \<and> always_failing ''GET /'' 0 = ((None, Some (TemporaryError ''timeout'' True)), 1)
   \<and> always_succeeding ''GET /'' 0 = ((Some ''200 OK'', None), 1)"
  by (simp add: max_retries_def RetryTransactor_def retry_run_def attemptsOf_def
      retry_loop.simps Let_def always_failing_def always_succeeding_def)

text \<open>The same for every wrapped function, request and world.\<close>

lemma RetryTransactor_max_retries:
  "Retries o' = 0x7FFFFFFFFFFFFFFF \<Longrightarrow>
   attempted (retry_run o' nxt rq w) = [] \<and> RetryTransactor o' nxt rq w = ((None, None), w)"
  by (simp add: RetryTransactor_def retry_run_def attemptsOf_def retry_loop.simps Let_def)

section \<open>Connecting and routing: proofs\<close>

text \<open>
  C10. When the context of the request carries no device identifier, \<open>Connect\<close> writes
  an error response with status 500 and returns \<open>ErrorMissingDeviceNameContext\<close>; the
  upgrader is not called, the registry is as before, no event is dispatched and no pump
  is launched.
\<close>

theorem Connect_missing_device_name:
  "Connect c (request'\<lparr>ctx_ID := None\<rparr>) s =
     ((None, Some ErrorMissingDeviceNameContext),
      s\<lparr>httpErrors := httpErrors s @ [(500, ErrorMissingDeviceNameContext)]\<rparr>)
   \<and> upgrades (snd (Connect c (request'\<lparr>ctx_ID := None\<rparr>) s)) = upgrades s
   \<and> devices (snd (Connect c (request'\<lparr>ctx_ID := None\<rparr>) s)) = devices s
   \<and> dispatched (snd (Connect c (request'\<lparr>ctx_ID := None\<rparr>) s)) = dispatched s
   \<and> pumps (snd (Connect c (request'\<lparr>ctx_ID := None\<rparr>) s)) = pumps s"
  by (simp add: Connect_def StatusInternalServerError_def)

text \<open>A failed \<open>add\<close> of the registry of the spec changes nothing.\<close>

lemma registry_add_failure:
  "registry_add d reg = (Some err, reg') \<Longrightarrow>
   reg' = reg \<and> (err = ErrorCapacityExceeded \<or> err = ErrorDuplicateID)"
  by (auto simp: registry_add_def split: if_splits)

text \<open>
  C4. If the upgrade fails, \<open>Connect\<close> returns that error and leaves the registry, the
  events and the pumps as they were. If the registry's \<open>add\<close> fails, \<open>Connect\<close> closes
  the transport once and returns that error; it dispatches no event, launches no pump,
  installs no pong handler, and the registry is what the failed \<open>add\<close> left. The
  registry of the spec fails only for capacity or a duplicate identifier and then
  leaves its table unchanged.
\<close>

theorem Connect_failure_leaves_no_registration:
  "(ctx_ID request' = Some ident \<and> upgrader_Upgrade c request' = Some err \<longrightarrow>
      fst (Connect c request' s) = (None, Some err)
      \<and> devices (snd (Connect c request' s)) = devices s
      \<and> closes (snd (Connect c request' s)) = closes s
      \<and> dispatched (snd (Connect c request' s)) = dispatched s
      \<and> pumps (snd (Connect c request' s)) = pumps s)
   \<and> (ctx_ID request' = Some ident \<and> upgrader_Upgrade c request' = None \<and>
       NewPinger c ident = None \<and>
       devices_add c (newDevice ident (deviceMessageQueueSize s)) (devices s) = (Some err, r) \<longrightarrow>
      fst (Connect c request' s) = (None, Some err)
      \<and> closes (snd (Connect c request' s)) = closes s + 1
      \<and> devices (snd (Connect c request' s)) = r
      \<and> dispatched (snd (Connect c request' s)) = dispatched s
      \<and> pumps (snd (Connect c request' s)) = pumps s
      \<and> pongHandler (snd (Connect c request' s)) = pongHandler s
      \<and> closeOnce (snd (Connect c request' s)) = closeOnce s)
   \<and> (registry_add d reg = (Some err, reg') \<longrightarrow>
        reg' = reg \<and> (err = ErrorCapacityExceeded \<or> err = ErrorDuplicateID))"
proof (intro conjI impI)
  assume "registry_add d reg = (Some err, reg')"
  then show "reg' = reg" and "err = ErrorCapacityExceeded \<or> err = ErrorDuplicateID"
    using registry_add_failure by blast+
qed (simp_all add: Connect_def newDevice_def Let_def)

text \<open>
  Witness for C4: a handshake that fails, and a second device for a registry with room
  for one.
\<close>

theorem Connect_failure_leaves_no_registration_witness:
  "ctx_ID \<lparr>r_URL = ''/other'', ctx_ID = Some ''dev-2''\<rparr> = Some ''dev-2''
   \<and> upgrader_Upgrade example_hub \<lparr>r_URL = ''/other'', ctx_ID = Some ''dev-2''\<rparr>
       = Some (PlainError ''bad handshake'')
   \<and> Connect example_hub \<lparr>r_URL = ''/other'', ctx_ID = Some ''dev-2''\<rparr> hub1
       = ((None, Some (PlainError ''bad handshake'')), hub1\<lparr>upgrades := 1\<rparr>)
   \<and> upgrader_Upgrade example_hub \<lparr>r_URL = ''/device'', ctx_ID = Some ''dev-2''\<rparr> = None
   \<and> NewPinger example_hub ''dev-2'' = None
   \<and> devices_add example_hub (newDevice ''dev-2'' (deviceMessageQueueSize hub1)) (devices hub1)
       = (Some ErrorCapacityExceeded, devices hub1)
   \<and> registry_add (newDevice ''dev-2'' 100) (devices hub1)
       = (Some ErrorCapacityExceeded, devices hub1)
   \<and> Connect example_hub \<lparr>r_URL = ''/device'', ctx_ID = Some ''dev-2''\<rparr> hub1
       = ((None, Some ErrorCapacityExceeded), hub1\<lparr>upgrades := 1, closes := 1\<rparr>)"
  using
    Connect_failure_leaves_no_registration
      [of "\<lparr>r_URL = ''/other'', ctx_ID = Some ''dev-2''\<rparr>" "''dev-2''" example_hub
          "PlainError ''bad handshake''" hub1 "devices hub1" "newDevice ''dev-2'' 100"
          "devices hub1" "devices hub1"]
    Connect_failure_leaves_no_registration
      [of "\<lparr>r_URL = ''/device'', ctx_ID = Some ''dev-2''\<rparr>" "''dev-2''" example_hub
          ErrorCapacityExceeded hub1 "devices hub1" "newDevice ''dev-2'' 100"
          "devices hub1" "devices hub1"]
  by (simp add: Connect_def example_hub_def hub1_def registry_add_def newDevice_def Let_def)

text \<open>
  C5. \<open>Route\<close> returns the error of resolving the destination when that fails; returns
  \<open>ErrorDeviceNotFound\<close> with the state, and so the registry, unchanged when the registry
  has no device under the destination; and otherwise is the \<open>Send\<close> of the device found.
\<close>

theorem Route_resolves_then_delegates:
  "(request_ID c request' = Inl err \<longrightarrow> Route c request' s = ((None, Some err), s))
   \<and> (request_ID c request' = Inr destination \<and> devices_get c destination (devices s) = None \<longrightarrow>
        Route c request' s = ((None, Some ErrorDeviceNotFound), s))
   \<and> (request_ID c request' = Inr destination \<and> devices_get c destination (devices s) = Some d \<longrightarrow>
        Route c request' s = device_Send c d request' s)"
  by (simp add: Route_def)

text \<open>
  Witness for C5: a request without destination, one for the unknown \<open>dev-2\<close>, and one
  for the connected \<open>dev-1\<close>.
\<close>

theorem Route_resolves_then_delegates_witness:
  "request_ID example_hub (request1\<lparr>rq_Message := (rq_Message request1)\<lparr>m_Destination := []\<rparr>\<rparr>)
     = Inl (PlainError ''invalid id'')
   \<and> Route example_hub (request1\<lparr>rq_Message := (rq_Message request1)\<lparr>m_Destination := []\<rparr>\<rparr>) hub1
     = ((None, Some (PlainError ''invalid id'')), hub1)
   \<and> request_ID example_hub request2 = Inr ''dev-2''
   \<and> devices_get example_hub ''dev-2'' (devices hub1) = None
   \<and> Route example_hub request2 hub1 = ((None, Some ErrorDeviceNotFound), hub1)
   \<and> request_ID example_hub request1 = Inr ''dev-1''
   \<and> devices_get example_hub ''dev-1'' (devices hub1) = Some dev1
   \<and> Route example_hub request1 hub1 = device_Send example_hub dev1 request1 hub1
   \<and> Route example_hub request1 hub1 =
       ((None, None), hub1\<lparr>messages := [\<lparr>request = request1, complete = 0\<rparr>]\<rparr>)"
  using
    Route_resolves_then_delegates
      [of example_hub "request1\<lparr>rq_Message := (rq_Message request1)\<lparr>m_Destination := []\<rparr>\<rparr>"
          "PlainError ''invalid id''" hub1 "''dev-2''" dev1]
    Route_resolves_then_delegates
      [of example_hub request2 "PlainError ''invalid id''" hub1 "''dev-2''" dev1]
    Route_resolves_then_delegates
      [of example_hub request1 "PlainError ''invalid id''" hub1 "''dev-1''" dev1]
  by (simp add: example_hub_def example_ID_def request1_def request2_def hub1_def
      registry_get_def example_Send_def)

section \<open>The read pump: proofs\<close>

text \<open>Frames that are dropped, and when the pump exits.\<close>

lemma readFrame_dropped:
  "messageType \<noteq> BinaryMessage \<or> (\<exists>err. Decode c data = Inl err) \<Longrightarrow>
   readFrame c d messageType data s = s"
  by (auto simp: readFrame_def)

lemma readPump_exit_iff:
  "fst (readPump c d results s) = Exited \<longleftrightarrow> (\<exists>err. ReadError err \<in> set results)"
proof (induction results arbitrary: s)
  case Nil
  then show ?case by simp
next
  case (Cons x results)
  then show ?case by (cases x) auto
qed

text \<open>
  C6. A frame that is not binary, or a binary frame that does not decode, changes
  nothing: no event, no disconnect, and the pump goes on with the frames after it. The
  pump exits exactly when a read returns an error.
\<close>

theorem readPump_drops_bad_frames:
  "(messageType \<noteq> BinaryMessage \<or> (\<exists>err. Decode c data = Inl err) \<longrightarrow>
      readFrame c d messageType data s = s
      \<and> readPump c d (ReadFrame messageType data # rest) s = readPump c d rest s)
   \<and> (fst (readPump c d results s) = Exited \<longleftrightarrow> (\<exists>err. ReadError err \<in> set results))"
  using readFrame_dropped [of messageType c data d s] readPump_exit_iff [of c d results s]
  by simp

text \<open>
  Witness for C6: a text frame and an undecodable binary frame before a good frame, and
  a read error.
\<close>

theorem readPump_drops_bad_frames_witness:
  "1 \<noteq> BinaryMessage
   \<and> Decode example_hub [] = Inl (PlainError ''EOF'')
   \<and> readPump example_hub dev1 [ReadFrame 1 [104, 105], ReadFrame 2 [], ReadFrame 2 [4, 7]] hub1
      = readPump example_hub dev1 [ReadFrame 2 [4, 7]] hub1
   \<and> fst (readPump example_hub dev1 [ReadFrame 1 [104, 105], ReadFrame 2 [], ReadFrame 2 [4, 7]] hub1)
      = Running
   \<and> map e_Type (dispatched (snd (readPump example_hub dev1
        [ReadFrame 1 [104, 105], ReadFrame 2 [], ReadFrame 2 [4, 7]] hub1))) = [MessageReceived]
   \<and> fst (readPump example_hub dev1 [ReadFrame 1 [104, 105], ReadError (PlainError ''EOF'')] hub1)
      = Exited"
  using
    readPump_drops_bad_frames [of 1 example_hub "[104, 105]" dev1 hub1
       "[ReadFrame 2 [], ReadFrame 2 [4, 7]]"
       "[ReadFrame 1 [104, 105], ReadFrame 2 [], ReadFrame 2 [4, 7]]"]
    readPump_drops_bad_frames [of 2 example_hub "[]" dev1 hub1
       "[ReadFrame 2 [4, 7]]"
       "[ReadFrame 1 [104, 105], ReadError (PlainError ''EOF'')]"]
  by (simp add: BinaryMessage_def example_hub_def example_Decode_def readFrame_def
      dispatch_def hub1_def)

text \<open>
  C2, as stated, fails: for a decoded transaction part the only event dispatched is
  \<open>TransactionComplete\<close> (the transaction is open) or \<open>TransactionBroken\<close> (it is not);
  no \<open>MessageReceived\<close> event is dispatched for that frame.
\<close>

theorem readFrame_transaction_part_counterexample:
  "map e_Type (dispatched (snd (readPump example_hub dev1 [ReadFrame 2 [3, 7]] hub1)))
     = [TransactionComplete]
   \<and> map e_Type (dispatched (snd (readPump example_hub dev1 [ReadFrame 2 [3, 7]]
        (hub1\<lparr>transactions := []\<rparr>))))
     = [TransactionBroken]"
  by (simp add: BinaryMessage_def example_hub_def example_Decode_def readFrame_def
      dispatch_def hub1_def tracker_Complete_def)

text \<open>
  C2, amended. For every binary frame that decodes, the read pump dispatches exactly one
  event, carrying the device, the message, the format Msgpack and the frame's bytes. It
  is \<open>MessageReceived\<close> when the message is not a transaction part. For a transaction
  part it is \<open>TransactionComplete\<close> when completing the transaction succeeds, and
  \<open>TransactionBroken\<close> carrying the error when it fails.
\<close>

theorem readFrame_dispatches_one_event:
  "messageType = BinaryMessage \<and> Decode c data = Inr message \<longrightarrow>
     dispatched (readFrame c d messageType data s) =
       dispatched s @
       [\<lparr>e_Type =
            (if \<not> IsTransactionPart c message then MessageReceived
             else case fst (transactions_Complete c (TransactionKey c message)
                     \<lparr>rs_Device = d, rs_Message = message, rs_Format = Msgpack,
                      rs_Contents = data\<rparr> (transactions s)) of
                    None \<Rightarrow> TransactionComplete
                  | Some err \<Rightarrow> TransactionBroken),
          e_Device = d, e_Message = Some message, e_Format = Some Msgpack,
          e_Contents = data,
          e_Error =
            (if \<not> IsTransactionPart c message then None
             else fst (transactions_Complete c (TransactionKey c message)
                     \<lparr>rs_Device = d, rs_Message = message, rs_Format = Msgpack,
                      rs_Contents = data\<rparr> (transactions s)))\<rparr>]"
  by (cases "transactions_Complete c (TransactionKey c message)
                     \<lparr>rs_Device = d, rs_Message = message, rs_Format = Msgpack,
                      rs_Contents = data\<rparr> (transactions s)")
     (auto simp: readFrame_def dispatch_def Let_def split: option.splits)

text \<open>Witness for C2, amended: a reply to the open transaction \<open>tid\<close>.\<close>

theorem readFrame_dispatches_one_event_witness:
  "(2 = BinaryMessage \<and> Decode example_hub [3, 7] =
      Inr \<lparr>m_Type = SimpleRequestResponseMessageType, m_Source = ''dev-1'',
           m_Destination = ''hub'', m_TransactionUUID = ''tid'', m_Payload = [7]\<rparr>)
   \<and> dispatched (readFrame example_hub dev1 2 [3, 7] hub1) =
       [\<lparr>e_Type = TransactionComplete, e_Device = dev1,
         e_Message = Some \<lparr>m_Type = SimpleRequestResponseMessageType, m_Source = ''dev-1'',
           m_Destination = ''hub'', m_TransactionUUID = ''tid'', m_Payload = [7]\<rparr>,
         e_Format = Some Msgpack, e_Contents = [3, 7], e_Error = None\<rparr>]"
  using readFrame_dispatches_one_event [of 2 example_hub "[3, 7]"
      "\<lparr>m_Type = SimpleRequestResponseMessageType, m_Source = ''dev-1'',
           m_Destination = ''hub'', m_TransactionUUID = ''tid'', m_Payload = [7]\<rparr>" dev1 hub1]
  by (simp add: BinaryMessage_def example_hub_def example_Decode_def hub1_def
      tracker_Complete_def)

section \<open>Teardown and the write pump: proofs\<close>

text \<open>What \<open>dispatch\<close> and updates of other fields do to the observations.\<close>

lemma dispatch_fields [simp]:
  "dispatched (dispatch e s) = dispatched s @ [e]"
  "closeOnce (dispatch e s) = closeOnce s"
  "messages (dispatch e s) = messages s"
  "chanOps (dispatch e s) = chanOps s"
  "written (dispatch e s) = written s"
  by (simp_all add: dispatch_def)

lemma disconnects_dispatch:
  "disconnects (dispatch e s) =
     disconnects s @ (if e_Type e = DisconnectEvent then [e] else [])"
  by (simp add: disconnects_def)

lemma disconnects_update [simp]:
  "disconnects (s\<lparr>closeOnce := b\<rparr>) = disconnects s"
  "disconnects (s\<lparr>messages := q\<rparr>) = disconnects s"
  "disconnects (s\<lparr>closes := n\<rparr>) = disconnects s"
  "disconnects (s\<lparr>pings := n\<rparr>) = disconnects s"
  "disconnects (s\<lparr>devices := r\<rparr>) = disconnects s"
  "disconnects (s\<lparr>transactions := t\<rparr>) = disconnects s"
  "disconnects (s\<lparr>requestResponse := n\<rparr>) = disconnects s"
  "disconnects (s\<lparr>chanOps := ops\<rparr>) = disconnects s"
  "disconnects (s\<lparr>written := fs\<rparr>) = disconnects s"
  "disconnects (s\<lparr>pingTickerStopped := b\<rparr>) = disconnects s"
  "disconnects (s\<lparr>authStatusTimerStopped := b\<rparr>) = disconnects s"
  by (simp_all add: disconnects_def)

text \<open>
  The guarded teardown adds the disconnect event when the guard has not fired, and
  nothing otherwise; afterwards the guard has fired.
\<close>

lemma closeOnce_Do_pumpClose:
  "disconnects (closeOnce_Do (pumpClose c d pumpError) s) =
     disconnects s @
     (if closeOnce s then []
      else [\<lparr>e_Type = DisconnectEvent, e_Device = d, e_Message = None, e_Format = None,
             e_Contents = [], e_Error = None\<rparr>])"
  "closeOnce (closeOnce_Do (pumpClose c d pumpError) s)"
  "messages (closeOnce_Do (pumpClose c d pumpError) s) = messages s"
  by (simp_all add: closeOnce_Do_def pumpClose_def Let_def disconnects_dispatch)

text \<open>
  Reading frames, writing envelopes and draining the queue dispatch no disconnect event
  and leave the guard alone, so each pump adds the disconnect event exactly when it
  exits with the guard not yet fired.
\<close>

lemma readFrame_keeps:
  "disconnects (readFrame c d messageType data s) = disconnects s"
  "closeOnce (readFrame c d messageType data s) = closeOnce s"
  by (auto simp: readFrame_def Let_def disconnects_dispatch
      split: sum.splits prod.splits option.splits)

lemma readPump_disconnects:
  "disconnects (snd (readPump c d results s)) =
     disconnects s @
     (if fst (readPump c d results s) = Exited \<and> \<not> closeOnce s
      then [\<lparr>e_Type = DisconnectEvent, e_Device = d, e_Message = None, e_Format = None,
             e_Contents = [], e_Error = None\<rparr>]
      else [])
   \<and> closeOnce (snd (readPump c d results s)) =
       (closeOnce s \<or> fst (readPump c d results s) = Exited)"
proof (induction results arbitrary: s)
  case Nil
  then show ?case by simp
next
  case (Cons x results)
  show ?case
  proof (cases x)
    case (ReadError e)
    then show ?thesis by (simp add: closeOnce_Do_pumpClose)
  next
    case (ReadFrame t data)
    then show ?thesis
      using Cons.IH [of "readFrame c d t data s"] by (simp add: readFrame_keeps)
  qed
qed

lemma writeEnvelope_keeps:
  "disconnects (snd (writeEnvelope c d env writeResult s)) = disconnects s"
  "closeOnce (snd (writeEnvelope c d env writeResult s)) = closeOnce s"
  by (auto simp: writeEnvelope_def disconnects_dispatch message_event_def
      split: sum.splits option.splits)

lemma writeLoop_keeps:
  "disconnects (snd (snd (snd (writeLoop c d wakeups s)))) = disconnects s
   \<and> closeOnce (snd (snd (snd (writeLoop c d wakeups s)))) = closeOnce s"
proof (induction c d wakeups s rule: writeLoop.induct)
  case (1 c d s)
  then show ?case by simp
next
  case (2 c d closeResult rest s)
  then show ?case by simp
next
  case (3 c d writeResult rest s)
  show ?case
  proof (cases "messages s")
    case Nil
    then show ?thesis using 3(1) by simp
  next
    case (Cons env queue)
    obtain we s1 where w: "writeEnvelope c d env writeResult (s\<lparr>messages := queue\<rparr>) = (we, s1)"
      by (cases "writeEnvelope c d env writeResult (s\<lparr>messages := queue\<rparr>)")
    have k: "disconnects s1 = disconnects s" "closeOnce s1 = closeOnce s"
      using writeEnvelope_keeps [of c d env writeResult "s\<lparr>messages := queue\<rparr>"] w by simp_all
    show ?thesis
    proof (cases we)
      case None
      then show ?thesis using 3(2) [OF Cons w [symmetric] None] Cons w k by simp
    next
      case (Some e)
      then show ?thesis using Cons w k by simp
    qed
  qed
next
  case (4 c d pingResult rest s)
  then show ?case by (cases pingResult) simp_all
qed

lemma drain_keeps:
  "disconnects (drain d writeError queue s) = disconnects s"
  "closeOnce (drain d writeError queue s) = closeOnce s"
  by (induction queue arbitrary: s)
     (simp_all add: disconnects_dispatch message_event_def)


lemma writePump_deferred_disconnects:
  "disconnects (writePump_deferred c d envelope' writeError s) =
     disconnects s @
     (if closeOnce s then []
      else [\<lparr>e_Type = DisconnectEvent, e_Device = d, e_Message = None, e_Format = None,
             e_Contents = [], e_Error = None\<rparr>])"
  "closeOnce (writePump_deferred c d envelope' writeError s)"
  by (cases envelope';
      simp add: writePump_deferred_def Let_def drain_keeps closeOnce_Do_pumpClose
        disconnects_dispatch message_event_def)+

lemma writePump_disconnects:
  "disconnects (snd (writePump c d wakeups s)) =
     disconnects s @
     (if fst (writePump c d wakeups s) = Exited \<and> \<not> closeOnce s
      then [\<lparr>e_Type = DisconnectEvent, e_Device = d, e_Message = None, e_Format = None,
             e_Contents = [], e_Error = None\<rparr>]
      else [])
   \<and> closeOnce (snd (writePump c d wakeups s)) =
       (closeOnce s \<or> fst (writePump c d wakeups s) = Exited)"
proof -
  obtain st env we s1 where l: "writeLoop c d wakeups s = (st, env, we, s1)"
    by (cases "writeLoop c d wakeups s")
  have k: "disconnects s1 = disconnects s" "closeOnce s1 = closeOnce s"
    using writeLoop_keeps [of c d wakeups s] l by simp_all
  show ?thesis
    by (cases st) (simp_all add: writePump_def l k writePump_deferred_disconnects)
qed

text \<open>
  C7, as stated, fails: after a read error the one event dispatched is a disconnect
  event whose error is nil, and after a failed ping the disconnect event has no error
  either.
\<close>

theorem disconnect_event_error_counterexample:
  "dispatched (snd (readPump example_hub dev1 [ReadError (PlainError ''connection reset'')] hub1))
     = [\<lparr>e_Type = DisconnectEvent, e_Device = dev1, e_Message = None, e_Format = None,
         e_Contents = [], e_Error = None\<rparr>]
   \<and> map e_Error (disconnects (snd (writePump example_hub dev1
         [Tick (Some (PlainError ''broken pipe''))] hub1))) = [None]"
  by (simp add: closeOnce_Do_def pumpClose_def dispatch_def hub1_def writePump_def
      writePump_deferred_def disconnects_def Let_def)

text \<open>
  C7, amended. When the guard has not fired and a pump exits (the read pump on a read
  error; the write pump on a write error, an encoding error, a failed ping or a
  shutdown), exactly one disconnect event for the device is dispatched, and it carries
  no error; when afterwards the other pump runs and exits, no further disconnect event
  is dispatched. This holds for either order of the two pumps.
\<close>

theorem teardown_dispatches_one_disconnect_without_error:
  "\<not> closeOnce s \<longrightarrow>
     (fst (readPump c d results s) = Exited \<longrightarrow>
        disconnects (snd (readPump c d results s)) =
          disconnects s @
          [\<lparr>e_Type = DisconnectEvent, e_Device = d, e_Message = None, e_Format = None,
            e_Contents = [], e_Error = None\<rparr>]
        \<and> disconnects (snd (writePump c d wakeups (snd (readPump c d results s)))) =
            disconnects (snd (readPump c d results s)))
   \<and> (fst (writePump c d wakeups s) = Exited \<longrightarrow>
        disconnects (snd (writePump c d wakeups s)) =
          disconnects s @
          [\<lparr>e_Type = DisconnectEvent, e_Device = d, e_Message = None, e_Format = None,
            e_Contents = [], e_Error = None\<rparr>]
        \<and> disconnects (snd (readPump c d results (snd (writePump c d wakeups s)))) =
            disconnects (snd (writePump c d wakeups s)))"
proof (intro impI conjI)
  assume n: "\<not> closeOnce s" and e: "fst (readPump c d results s) = Exited"
  show "disconnects (snd (readPump c d results s)) =
          disconnects s @
          [\<lparr>e_Type = DisconnectEvent, e_Device = d, e_Message = None, e_Format = None,
            e_Contents = [], e_Error = None\<rparr>]"
    using readPump_disconnects [of c d results s] n e by simp
  have "closeOnce (snd (readPump c d results s))"
    using readPump_disconnects [of c d results s] e by simp
  then show "disconnects (snd (writePump c d wakeups (snd (readPump c d results s)))) =
            disconnects (snd (readPump c d results s))"
    using writePump_disconnects [of c d wakeups "snd (readPump c d results s)"] by simp
next
  assume n: "\<not> closeOnce s" and e: "fst (writePump c d wakeups s) = Exited"
  show "disconnects (snd (writePump c d wakeups s)) =
          disconnects s @
          [\<lparr>e_Type = DisconnectEvent, e_Device = d, e_Message = None, e_Format = None,
            e_Contents = [], e_Error = None\<rparr>]"
    using writePump_disconnects [of c d wakeups s] n e by simp
  have "closeOnce (snd (writePump c d wakeups s))"
    using writePump_disconnects [of c d wakeups s] e by simp
  then show "disconnects (snd (readPump c d results (snd (writePump c d wakeups s)))) =
            disconnects (snd (writePump c d wakeups s))"
    using readPump_disconnects [of c d results "snd (writePump c d wakeups s)"] by simp
qed

text \<open>Witness for C7, amended: a read error and a failed ping, in both orders.\<close>

theorem teardown_dispatches_one_disconnect_without_error_witness:
  "\<not> closeOnce hub1
   \<and> fst (readPump example_hub dev1 [ReadError (PlainError ''connection reset'')] hub1) = Exited
   \<and> fst (writePump example_hub dev1 [Tick (Some (PlainError ''broken pipe''))] hub1) = Exited
   \<and> disconnects (snd (writePump example_hub dev1 [Tick (Some (PlainError ''broken pipe''))]
        (snd (readPump example_hub dev1 [ReadError (PlainError ''connection reset'')] hub1))))
      = [\<lparr>e_Type = DisconnectEvent, e_Device = dev1, e_Message = None, e_Format = None,
          e_Contents = [], e_Error = None\<rparr>]
   \<and> disconnects (snd (readPump example_hub dev1 [ReadError (PlainError ''connection reset'')]
        (snd (writePump example_hub dev1 [Tick (Some (PlainError ''broken pipe''))] hub1))))
      = [\<lparr>e_Type = DisconnectEvent, e_Device = dev1, e_Message = None, e_Format = None,
          e_Contents = [], e_Error = None\<rparr>]"
proof -
  have h: "\<not> closeOnce hub1" "disconnects hub1 = []"
    by (simp_all add: hub1_def disconnects_def)
  have r: "fst (readPump example_hub dev1 [ReadError (PlainError ''connection reset'')] hub1) = Exited"
    by simp
  have w: "fst (writePump example_hub dev1 [Tick (Some (PlainError ''broken pipe''))] hub1) = Exited"
    by (simp add: writePump_def)
  show ?thesis
    using h r w
      teardown_dispatches_one_disconnect_without_error
        [of hub1 example_hub dev1 "[ReadError (PlainError ''connection reset'')]"
            "[Tick (Some (PlainError ''broken pipe''))]"]
    by simp
qed

text \<open>
  C1. The claim says that every event of the drain marks the failure as
  connection-closed, not as an I/O error, and the comment above the drain says that nil
  is passed as the error. The drain passes \<open>writeError\<close>: with two envelopes queued and
  a ping that fails with \<open>broken pipe\<close>, the write pump dispatches the disconnect event
  and then one \<open>MessageFailed\<close> event per queued envelope, each with the envelope's
  message, format and contents, and each carrying the I/O error \<open>broken pipe\<close>.
\<close>

theorem writePump_drain_carries_write_error:
  "dispatched (snd (writePump example_hub dev1 [Tick (Some (PlainError ''broken pipe''))]
      hub1_queued)) =
     [\<lparr>e_Type = DisconnectEvent, e_Device = dev1, e_Message = None, e_Format = None,
       e_Contents = [], e_Error = None\<rparr>,
      \<lparr>e_Type = MessageFailed, e_Device = dev1, e_Message = Some (rq_Message request1),
       e_Format = Some Msgpack, e_Contents = [4, 7],
       e_Error = Some (PlainError ''broken pipe'')\<rparr>,
      \<lparr>e_Type = MessageFailed, e_Device = dev1, e_Message = Some (rq_Message request2),
       e_Format = Some JSON, e_Contents = [123, 125],
       e_Error = Some (PlainError ''broken pipe'')\<rparr>]"
  by (simp add: writePump_def writePump_deferred_def closeOnce_Do_def pumpClose_def
      dispatch_def hub1_queued_def hub1_def Let_def message_event_def request1_def
      request2_def)







text \<open>
  On the shutdown signal the write pump closes the transport itself and then exits into
  the deferred function, whose guarded teardown closes it again: with the guard not yet
  fired, \<open>Close\<close> is called twice.
\<close>

lemma writePump_shutdown_closes_twice:
  "\<not> closeOnce s \<Longrightarrow>
   closes (snd (writePump c d (Shutdown closeResult # rest) s)) = closes s + 2"
proof -
  have "closes (drain d closeResult queue s') = closes s'" for queue and s' :: "('a, 'b) hub"
    by (induction queue arbitrary: s') (simp_all add: dispatch_def)
  moreover assume "\<not> closeOnce s"
  ultimately show ?thesis
    by (simp add: writePump_def writePump_deferred_def closeOnce_Do_def pumpClose_def
        dispatch_def Let_def)
qed









end
